theory Spec2Isabelle
  imports Main "HOL-Library.Finite_Map" "HOL-Library.Word"
begin

section \<open>Shared payload types\<close>

text \<open>
  The front-end keeps two Redux slices (\<open>ws\<close> and \<open>game\<close>) that mirror events pushed by
  the server, a router (\<open>dispatchMessage\<close>) that forwards each inbound message to one
  of the slices, and a generated protobuf class for the \<open>Node\<close> record.  Every reducer
  is embedded as a function from the payload and the old state to the new state; a
  reducer that can throw returns a sum whose left summand is the exception (the store
  keeps the old state in that case, since the draft of a throwing reducer is discarded).

  Message bodies whose fields no reducer of the sources inspects are carried as values
  of \<open>js_value\<close>.
\<close>

datatype js_value =
    JSNull
  | JSBool bool
  | JSNumber int
  | JSString string
  | JSArray "js_value list"
  | JSObject "(string \<times> js_value) list"

text \<open>
  \<open>SerializedError\<close> of the toolkit and \<open>ErrorMessage\<close> of the protocol are both read
  only through their \<open>message\<close> field.
\<close>

datatype SerializedError = SerializedError (message: string)

section \<open>The connection slice (\<open>wsSlice\<close>)\<close>

text \<open>
  Modelled from the spec: the enumeration \<open>WsStatus\<close> is declared in \<open>types/ws\<close>, which
  is not among the sources; the spec lists its members as Idle, Connecting, Connected
  and Disconnected.  The slice itself names \<open>Idle\<close>, \<open>Connected\<close> and \<open>Disconnected\<close>.
\<close>

datatype WsStatus = Idle | Connecting | Connected | Disconnected

text \<open>
  A player session is an object whose fields are merged shallowly by
  \<open>updatePlayerSessionPartial\<close>; it is a finite map from field names to values.
  A field of the state that holds \<open>null\<close> (or, for \<open>error\<close>, is absent) is \<open>None\<close>.
\<close>

type_synonym PlayerSessionMessage = "(string, js_value) fmap"

record WsState =
  status :: WsStatus
  error :: "SerializedError option"
  clientInfo :: "js_value option"
  clientInfoReloading :: bool
  clientInfoReloadError :: "SerializedError option"
  playerSession :: "PlayerSessionMessage option"
  playerSessionLoading :: bool
  playerSessionError :: "SerializedError option"
  disconnectError :: "SerializedError option"

definition wsInitialState :: WsState where
  "wsInitialState =
     \<lparr> status = Idle,
       error = None,
       clientInfo = None,
       clientInfoReloading = False,
       clientInfoReloadError = None,
       playerSession = None,
       playerSessionLoading = False,
       playerSessionError = None,
       disconnectError = None \<rparr>"

definition updateStatus :: "WsStatus \<Rightarrow> WsState \<Rightarrow> WsState" where
  "updateStatus payload state = state\<lparr>status := payload\<rparr>"

text \<open>\<open>if (action.payload)\<close>: an error object is truthy, \<open>null\<close> is not.\<close>

definition updateError :: "SerializedError option \<Rightarrow> WsState \<Rightarrow> WsState" where
  "updateError payload state =
     (let state = state\<lparr>error := payload\<rparr>
      in if payload \<noteq> None then state\<lparr>status := Disconnected\<rparr> else state)"

definition updateClientInfo :: "js_value option \<Rightarrow> WsState \<Rightarrow> WsState" where
  "updateClientInfo payload state = state\<lparr>clientInfo := payload\<rparr>"

definition updateReloadClientInfoError :: "SerializedError option \<Rightarrow> WsState \<Rightarrow> WsState" where
  "updateReloadClientInfoError payload state =
     state\<lparr>clientInfoReloading := False, clientInfoReloadError := payload\<rparr>"

definition updateClientInfoReloading :: "bool \<Rightarrow> WsState \<Rightarrow> WsState" where
  "updateClientInfoReloading payload state = state\<lparr>clientInfoReloading := payload\<rparr>"

definition updatePlayerSession :: "PlayerSessionMessage option \<Rightarrow> WsState \<Rightarrow> WsState" where
  "updatePlayerSession payload state =
     state\<lparr>playerSessionLoading := False, playerSession := payload\<rparr>"

text \<open>
  \<open>{...state.playerSession, ...action.payload}\<close>: spreading \<open>null\<close> contributes no
  field, and a field of the payload overrides the session's field of the same name.
\<close>

definition updatePlayerSessionPartial :: "PlayerSessionMessage \<Rightarrow> WsState \<Rightarrow> WsState" where
  "updatePlayerSessionPartial payload state =
     state\<lparr>playerSessionLoading := False,
           playerSession :=
             Some ((case playerSession state of None \<Rightarrow> fmempty | Some ps \<Rightarrow> ps) ++\<^sub>f payload)\<rparr>"

definition updatePlayerSessionLoading :: "bool \<Rightarrow> WsState \<Rightarrow> WsState" where
  "updatePlayerSessionLoading payload state =
     state\<lparr>playerSessionLoading := payload, playerSessionError := None\<rparr>"

definition updatePlayerSessionError :: "SerializedError option \<Rightarrow> WsState \<Rightarrow> WsState" where
  "updatePlayerSessionError payload state =
     state\<lparr>playerSessionLoading := False,
           playerSession := None,
           playerSessionError := payload\<rparr>"

definition setWsDisconnected :: "WsState \<Rightarrow> WsState" where
  "setWsDisconnected state =
     (let state = state\<lparr>status := Disconnected\<rparr>;
          state = (if clientInfoReloading state then state\<lparr>clientInfoReloading := False\<rparr> else state);
          state = state\<lparr>clientInfo := None\<rparr>;
          state = (if playerSessionLoading state then state\<lparr>playerSessionLoading := False\<rparr> else state)
      in state\<lparr>playerSession := None\<rparr>)"

definition setDisconnectError :: "SerializedError option \<Rightarrow> WsState \<Rightarrow> WsState" where
  "setDisconnectError payload state = state\<lparr>disconnectError := payload\<rparr>"

text \<open>
  The actions of the slice, one constructor per entry of \<open>reducers\<close>, and the slice's
  reducer, which runs the entry the action names.
\<close>

datatype ws_action =
    UpdateStatus WsStatus
  | UpdateError "SerializedError option"
  | UpdateClientInfo "js_value option"
  | UpdateReloadClientInfoError "SerializedError option"
  | UpdateClientInfoReloading bool
  | UpdatePlayerSession "PlayerSessionMessage option"
  | UpdatePlayerSessionPartial PlayerSessionMessage
  | UpdatePlayerSessionLoading bool
  | UpdatePlayerSessionError "SerializedError option"
  | SetWsDisconnected
  | SetDisconnectError "SerializedError option"

fun wsReducer :: "ws_action \<Rightarrow> WsState \<Rightarrow> WsState" where
  "wsReducer (UpdateStatus p) s = updateStatus p s"
| "wsReducer (UpdateError p) s = updateError p s"
| "wsReducer (UpdateClientInfo p) s = updateClientInfo p s"
| "wsReducer (UpdateReloadClientInfoError p) s = updateReloadClientInfoError p s"
| "wsReducer (UpdateClientInfoReloading p) s = updateClientInfoReloading p s"
| "wsReducer (UpdatePlayerSession p) s = updatePlayerSession p s"
| "wsReducer (UpdatePlayerSessionPartial p) s = updatePlayerSessionPartial p s"
| "wsReducer (UpdatePlayerSessionLoading p) s = updatePlayerSessionLoading p s"
| "wsReducer (UpdatePlayerSessionError p) s = updatePlayerSessionError p s"
| "wsReducer SetWsDisconnected s = setWsDisconnected s"
| "wsReducer (SetDisconnectError p) s = setDisconnectError p s"

text \<open>Actions are reduced one at a time, in the order in which they are dispatched.\<close>

fun wsRun :: "ws_action list \<Rightarrow> WsState \<Rightarrow> WsState" where
  "wsRun [] s = s"
| "wsRun (a # as) s = wsRun as (wsReducer a s)"

text \<open>
  \<open>updateStatus\<close> overwrites the status whatever the error field holds.  A run is
  \<open>status_guarded\<close> when each \<open>updateStatus\<close> of it either sets \<open>Disconnected\<close> or is
  applied while the error field is \<open>null\<close>.
\<close>

fun status_guarded :: "ws_action list \<Rightarrow> WsState \<Rightarrow> bool" where
  "status_guarded [] s = True"
| "status_guarded (UpdateStatus p # as) s =
     ((p = Disconnected \<or> error s = None) \<and> status_guarded as (wsReducer (UpdateStatus p) s))"
| "status_guarded (a # as) s = status_guarded as (wsReducer a s)"

section \<open>The lobby slice (\<open>gameSlice\<close>)\<close>

text \<open>
  Modelled from the spec: the enumeration \<open>SlotStatus\<close> is declared in \<open>types/lobby\<close>,
  which is not among the sources; the spec gives its members as Open, Occupied and
  unnamed further ones.  The slice itself names only \<open>SlotStatus.Open\<close>.
\<close>

datatype SlotStatus = Open | Occupied | OtherSlotStatus nat

text \<open>
  The objects of a game.  The reducers read \<open>id\<close> of a player, of a node and of a game,
  \<open>status\<close> of a slot's settings, and the \<open>player\<close> and \<open>settings\<close> of a slot; whatever
  else an object carries travels along unread in a \<open>js_value\<close>.

  \<open>slots\<close> is a JavaScript array.  An assignment past its end leaves empty positions
  behind (reading one gives \<open>undefined\<close>), and \<open>updatePlayerEnter\<close> makes such an
  assignment when its index is past the end; so a position of the array is
  \<open>Some slot\<close> or \<open>None\<close>, the empty position.
\<close>

record PlayerRef =
  id_PlayerRef :: int
  rest_PlayerRef :: js_value

record SlotSettings =
  status_SlotSettings :: SlotStatus
  rest_SlotSettings :: js_value

record Slot =
  settings :: SlotSettings
  player :: "PlayerRef option"

record NodeRef =
  id_NodeRef :: int
  rest_NodeRef :: js_value

record GameInfo =
  id_GameInfo :: int
  slots :: "Slot option list"
  node :: "NodeRef option"
  rest_GameInfo :: js_value

text \<open>
  A ping map is an object keyed by node id; the map of the current game is an object
  keyed by player id whose values are ping maps.  Keys of an object are the decimal
  strings of the ids, which are in one-to-one correspondence with the ids themselves.
\<close>

type_synonym PingMap = "(nat, int) fmap"
type_synonym GamePlayerPingMap = "(int, PingMap) fmap"

record GameState =
  createGameLoading :: bool
  createGameError :: "SerializedError option"
  currentGame :: "GameInfo option"
  currentNodeId :: "int option"
  currentNodeLoading :: bool
  currentPingMap :: "GamePlayerPingMap option"
  pingSnapshotLoading :: bool
  pingSnapshot :: "js_value option"

definition gameInitialState :: GameState where
  "gameInitialState =
     \<lparr> createGameLoading = False,
       createGameError = None,
       currentGame = None,
       currentNodeId = None,
       currentNodeLoading = False,
       currentPingMap = None,
       pingSnapshotLoading = False,
       pingSnapshot = None \<rparr>"

datatype js_error = TypeError

text \<open>What \<open>updatePlayerLeave\<close> writes with \<open>console.error\<close>: the game and the player.\<close>

datatype console_line = PlayerSlotNotFound int int

definition clearGameCreateError :: "GameState \<Rightarrow> GameState" where
  "clearGameCreateError state = state\<lparr>createGameError := None\<rparr>"

definition updateCurrentGame :: "GameInfo option \<Rightarrow> GameState \<Rightarrow> GameState" where
  "updateCurrentGame payload state =
     state\<lparr>currentGame := payload,
           currentNodeId :=
             (case payload of
                None \<Rightarrow> None
              | Some g \<Rightarrow> (case node g of None \<Rightarrow> None | Some n \<Rightarrow> Some (id_NodeRef n))),
           currentPingMap := None,
           createGameLoading := False,
           currentNodeLoading := False,
           createGameError := None\<rparr>"

text \<open>
  The reducers whose payload carries a \<open>game_id\<close> act under the guard
  \<open>state.currentGame && state.currentGame.id === game_id\<close>.

  \<open>state.currentGame.slots[slot_index].settings = slot_settings\<close>: past the end of the
  array and at an empty position the read gives \<open>undefined\<close>, and setting a property
  of \<open>undefined\<close> throws a TypeError.
\<close>

definition updateSlot :: "int \<Rightarrow> nat \<Rightarrow> SlotSettings \<Rightarrow> GameState \<Rightarrow> js_error + GameState" where
  "updateSlot game_id slot_index slot_settings state =
     (case currentGame state of
        None \<Rightarrow> Inr state
      | Some g \<Rightarrow>
          if id_GameInfo g = game_id then
            (if slot_index < length (slots g) then
               (case slots g ! slot_index of
                  None \<Rightarrow> Inl TypeError
                | Some sl \<Rightarrow>
                    Inr (state\<lparr>currentGame :=
                           Some (g\<lparr>slots := (slots g)[slot_index := Some (sl\<lparr>settings := slot_settings\<rparr>)]\<rparr>)\<rparr>))
             else Inl TypeError)
          else Inr state)"

definition startUpdateNode :: "GameState \<Rightarrow> GameState" where
  "startUpdateNode state = state\<lparr>currentNodeId := None, currentNodeLoading := True\<rparr>"

definition updateNode :: "int \<Rightarrow> int option \<Rightarrow> GameState \<Rightarrow> GameState" where
  "updateNode game_id node_id state =
     (case currentGame state of
        None \<Rightarrow> state
      | Some g \<Rightarrow>
          if id_GameInfo g = game_id then
            state\<lparr>currentNodeId := node_id, currentNodeLoading := False, currentPingMap := None\<rparr>
          else state)"

text \<open>
  \<open>a[i] = v\<close> on an array: inside the array the position is overwritten; past the end
  the array grows to length \<open>i + 1\<close> and the positions in between stay empty.
\<close>

definition array_set :: "'a option list \<Rightarrow> nat \<Rightarrow> 'a \<Rightarrow> 'a option list" where
  "array_set a i v =
     (if i < length a then a[i := Some v]
      else a @ replicate (i - length a) None @ [Some v])"

definition updatePlayerEnter :: "int \<Rightarrow> nat \<Rightarrow> Slot \<Rightarrow> GameState \<Rightarrow> GameState" where
  "updatePlayerEnter game_id slot_index slot state =
     (case currentGame state of
        None \<Rightarrow> state
      | Some g \<Rightarrow>
          if id_GameInfo g = game_id then
            state\<lparr>currentGame := Some (g\<lparr>slots := array_set (slots g) slot_index slot\<rparr>)\<rparr>
          else state)"

text \<open>
  \<open>slots.find((s) => s.player && s.player.id === player_id)\<close> visits the positions in
  order and stops at the first slot the callback accepts.  The result is that slot
  with its position, \<open>None\<close> when no slot is accepted; at an empty position the
  callback reads \<open>player\<close> of \<open>undefined\<close>, which throws a TypeError.
\<close>

definition has_player :: "int \<Rightarrow> Slot \<Rightarrow> bool" where
  "has_player player_id s =
     (case player s of None \<Rightarrow> False | Some p \<Rightarrow> id_PlayerRef p = player_id)"

fun find_slot :: "int \<Rightarrow> Slot option list \<Rightarrow> js_error + (nat \<times> Slot) option" where
  "find_slot player_id [] = Inr None"
| "find_slot player_id (None # ss) = Inl TypeError"
| "find_slot player_id (Some s # ss) =
     (if has_player player_id s then Inr (Some (0, s))
      else (case find_slot player_id ss of
              Inl e \<Rightarrow> Inl e
            | Inr None \<Rightarrow> Inr None
            | Inr (Some (i, s')) \<Rightarrow> Inr (Some (Suc i, s'))))"

text \<open>
  The slot that \<open>find\<close> returns is the draft of its position, so the two assignments
  to it change that position of the array.  The reducer returns the new state and the
  lines it wrote to the console.
\<close>

definition leave_slot :: "Slot \<Rightarrow> Slot" where
  "leave_slot slot =
     (let slot = slot\<lparr>player := None\<rparr>
      in slot\<lparr>settings := (settings slot)\<lparr>status_SlotSettings := Open\<rparr>\<rparr>)"

definition updatePlayerLeave ::
  "int \<Rightarrow> int \<Rightarrow> GameState \<Rightarrow> js_error + (GameState \<times> console_line list)" where
  "updatePlayerLeave game_id player_id state =
     (case currentGame state of
        None \<Rightarrow> Inr (state, [])
      | Some g \<Rightarrow>
          if id_GameInfo g = game_id then
            (case find_slot player_id (slots g) of
               Inl e \<Rightarrow> Inl e
             | Inr (Some (i, slot)) \<Rightarrow>
                 Inr (state\<lparr>currentGame := Some (g\<lparr>slots := (slots g)[i := Some (leave_slot slot)]\<rparr>)\<rparr>, [])
             | Inr None \<Rightarrow> Inr (state, [PlayerSlotNotFound game_id player_id]))
          else Inr (state, []))"

definition startLoadPingSnapshot :: "GameState \<Rightarrow> GameState" where
  "startLoadPingSnapshot state = state\<lparr>pingSnapshotLoading := True, pingSnapshot := None\<rparr>"

definition setPingSnapshot :: "js_value option \<Rightarrow> GameState \<Rightarrow> GameState" where
  "setPingSnapshot payload state = state\<lparr>pingSnapshotLoading := False, pingSnapshot := payload\<rparr>"

text \<open>
  \<open>Object.entries\<close> of a ping map lists its entries, each key once; keys that are
  decimal naturals come in ascending order.
\<close>

definition Object_entries :: "PingMap \<Rightarrow> (nat \<times> int) list" where
  "Object_entries m = sorted_list_of_fmap m"

text \<open>The loop \<open>for (let [node_id, ping] of entries) map[node_id] = ping\<close>.\<close>

fun assign_entries :: "(nat \<times> int) list \<Rightarrow> PingMap \<Rightarrow> PingMap" where
  "assign_entries [] m = m"
| "assign_entries ((node_id, ping) # es) m = assign_entries es (fmupd node_id ping m)"

definition updateCurrentPing :: "int \<Rightarrow> PingMap \<Rightarrow> GameState \<Rightarrow> GameState" where
  "updateCurrentPing player_id ping_map state =
     (case currentPingMap state of
        None \<Rightarrow> state\<lparr>currentPingMap := Some (fmupd player_id ping_map fmempty)\<rparr>
      | Some pm \<Rightarrow>
          (case fmlookup pm player_id of
             Some m \<Rightarrow>
               state\<lparr>currentPingMap :=
                 Some (fmupd player_id (assign_entries (Object_entries ping_map) m) pm)\<rparr>
           | None \<Rightarrow> state\<lparr>currentPingMap := Some (fmupd player_id ping_map pm)\<rparr>))"

text \<open>The two cases of \<open>extraReducers\<close>, for the pending and the rejected \<open>createGame\<close>.\<close>

definition createGame_pending :: "GameState \<Rightarrow> GameState" where
  "createGame_pending state =
     state\<lparr>createGameLoading := True, createGameError := None, currentNodeId := None\<rparr>"

definition createGame_rejected :: "SerializedError option \<Rightarrow> GameState \<Rightarrow> GameState" where
  "createGame_rejected err state = state\<lparr>createGameLoading := False, createGameError := err\<rparr>"

text \<open>A sequence of ping deltas, each a player and that player's ping map, applied in order.\<close>

fun applyPingDeltas :: "(int \<times> PingMap) list \<Rightarrow> GameState \<Rightarrow> GameState" where
  "applyPingDeltas [] state = state"
| "applyPingDeltas ((player_id, ping_map) # ds) state =
     applyPingDeltas ds (updateCurrentPing player_id ping_map state)"

text \<open>
  Two readings of the ping data of a state: the object that holds the players' maps
  (empty while \<open>currentPingMap\<close> is \<open>null\<close>), and the ping map of one player (empty while
  the player has none).
\<close>

definition ping_players :: "GameState \<Rightarrow> GamePlayerPingMap" where
  "ping_players state = (case currentPingMap state of None \<Rightarrow> fmempty | Some pm \<Rightarrow> pm)"

definition player_pings :: "GameState \<Rightarrow> int \<Rightarrow> PingMap" where
  "player_pings state player_id =
     (case fmlookup (ping_players state) player_id of None \<Rightarrow> fmempty | Some m \<Rightarrow> m)"

text \<open>
  A delta writes the pairs of its player with the node ids of its ping map; two deltas
  conflict when they write a common pair.
\<close>

definition writes_pair :: "int \<Rightarrow> nat \<Rightarrow> int \<times> PingMap \<Rightarrow> bool" where
  "writes_pair player_id node_id delta =
     (fst delta = player_id \<and> node_id |\<in>| fmdom (snd delta))"

definition ping_conflict :: "int \<times> PingMap \<Rightarrow> int \<times> PingMap \<Rightarrow> bool" where
  "ping_conflict a b = (fst a = fst b \<and> fmdom (snd a) |\<inter>| fmdom (snd b) \<noteq> {||})"

text \<open>
  The lobby of the spec's scenarios: game 1 with a single slot, occupied by player 7.
\<close>

definition scenario_slot :: Slot where
  "scenario_slot =
     \<lparr> settings = \<lparr> status_SlotSettings = Occupied, rest_SlotSettings = JSNull \<rparr>,
       player = Some \<lparr> id_PlayerRef = 7, rest_PlayerRef = JSNull \<rparr> \<rparr>"

definition scenario_state :: GameState where
  "scenario_state =
     gameInitialState
       \<lparr>currentGame :=
          Some \<lparr> id_GameInfo = 1, slots = [Some scenario_slot], node = None,
                 rest_GameInfo = JSNull \<rparr>\<rparr>"

text \<open>
  A second player, 8, and the state in which player 8 has entered the scenario's game
  at position 2, while its array of slots has length 1: position 1 stays empty.
\<close>

definition visitor_slot :: Slot where
  "visitor_slot =
     \<lparr> settings = \<lparr> status_SlotSettings = Occupied, rest_SlotSettings = JSNull \<rparr>,
       player = Some \<lparr> id_PlayerRef = 8, rest_PlayerRef = JSNull \<rparr> \<rparr>"

definition sparse_state :: GameState where
  "sparse_state = updatePlayerEnter 1 2 visitor_slot scenario_state"

text \<open>Three deltas: \<open>delta_A\<close> and \<open>delta_C\<close> both write the ping of player 7 to node 9.\<close>

definition delta_A :: "int \<times> PingMap" where
  "delta_A = (7, fmupd 9 42 fmempty)"

definition delta_B :: "int \<times> PingMap" where
  "delta_B = (8, fmupd 10 1 fmempty)"

definition delta_C :: "int \<times> PingMap" where
  "delta_C = (7, fmupd 9 50 (fmupd 10 12 fmempty))"

section \<open>The router (\<open>dispatchMessage\<close>)\<close>

text \<open>
  An inbound message is its tag together with the body that the router casts it to.
  \<open>OtherMessage\<close> stands for a message whose tag is none of the cases of the switch.
\<close>

datatype WsMessage =
    ClientInfo js_value
  | ReloadClientInfoError SerializedError
  | PlayerSession PlayerSessionMessage
  | PlayerSessionUpdate PlayerSessionMessage
  | ConnectRejected SerializedError
  | Disconnect string
  | ListMaps js_value
  | ListMapsError js_value
  | GetMapDetail js_value
  | GetMapDetailError js_value
  | CurrentGameInfo GameInfo
  | GamePlayerEnter int nat Slot
  | GamePlayerLeave int int
  | GameSlotUpdate int nat SlotSettings
  | ListNodes js_value
  | PingUpdate js_value
  | GamePlayerPingMapSnapshot js_value
  | GameSelectNode int "int option"
  | PlayerPingMapUpdate int PingMap
  | GameStartReject js_value
  | GameStarting js_value
  | GameStarted js_value
  | GameStartError js_value
  | GameSlotClientStatusUpdate js_value
  | GameStatusUpdate js_value
  | OtherMessage js_value

text \<open>The actions of the lobby slice, one constructor per entry of its \<open>reducers\<close>.\<close>

datatype game_action =
    ClearGameCreateError
  | UpdateCurrentGame "GameInfo option"
  | UpdateSlot int nat SlotSettings
  | StartUpdateNode
  | UpdateNode int "int option"
  | UpdatePlayerEnter int nat Slot
  | UpdatePlayerLeave int int
  | StartLoadPingSnapshot
  | SetPingSnapshot "js_value option"
  | UpdateCurrentPing int PingMap

text \<open>
  The router also dispatches what action creators of other files build: those of the
  map slice and of the node slice, and seven that it imports from the lobby slice's
  file but that the lobby slice of the sources does not define.  Such an action is kept
  as the creator's name and its argument.
\<close>

datatype imported_creator =
    setMapListLoaded
  | setMapDetailLoaded
  | setMapListLoadError
  | setMapLoadDetailLoadError
  | updateNodes
  | updateNodesPing
  | updateStartGameRejection
  | updateStartGameLoading
  | updateGameStarted
  | updateSlotClientStatus
  | checkCurrentGameId
  | updateGameStatus
  | updateStartGameError

datatype action =
    WsAction ws_action
  | GameAction game_action
  | Imported imported_creator "js_value option"

datatype effect = RouterPush string | Dispatch action

text \<open>
  \<open>payload.game_id\<close> of a session update: the field of that name, \<open>undefined\<close> when the
  body has none.
\<close>

definition dispatchMessage :: "string \<Rightarrow> WsMessage \<Rightarrow> effect list" where
  "dispatchMessage pathname msg =
     (case msg of
        ClientInfo m \<Rightarrow> [Dispatch (WsAction (UpdateClientInfo (Some m)))]
      | ReloadClientInfoError m \<Rightarrow> [Dispatch (WsAction (UpdateReloadClientInfoError (Some m)))]
      | PlayerSession m \<Rightarrow> [Dispatch (WsAction (UpdatePlayerSession (Some m)))]
      | PlayerSessionUpdate payload \<Rightarrow>
          [Dispatch (Imported checkCurrentGameId (fmlookup payload ''game_id'')),
           Dispatch (WsAction (UpdatePlayerSessionPartial payload))]
      | ConnectRejected m \<Rightarrow>
          [Dispatch (WsAction (UpdatePlayerSessionError (Some (SerializedError (message m)))))]
      | Disconnect payload_message \<Rightarrow>
          (let error = SerializedError payload_message
           in [Dispatch (WsAction (UpdatePlayerSessionError (Some error))),
               Dispatch (WsAction (SetDisconnectError (Some error)))])
      | ListMaps data \<Rightarrow> [Dispatch (Imported setMapListLoaded (Some data))]
      | ListMapsError m \<Rightarrow> [Dispatch (Imported setMapListLoadError (Some m))]
      | GetMapDetail m \<Rightarrow> [Dispatch (Imported setMapDetailLoaded (Some m))]
      | GetMapDetailError m \<Rightarrow> [Dispatch (Imported setMapLoadDetailLoadError (Some m))]
      | CurrentGameInfo m \<Rightarrow>
          (if pathname \<noteq> ''/lobby'' then [RouterPush ''/lobby''] else [])
          @ [Dispatch (GameAction (UpdateCurrentGame (Some m)))]
      | GamePlayerEnter game_id slot_index slot \<Rightarrow>
          [Dispatch (GameAction (UpdatePlayerEnter game_id slot_index slot))]
      | GamePlayerLeave game_id player_id \<Rightarrow>
          [Dispatch (GameAction (UpdatePlayerLeave game_id player_id))]
      | GameSlotUpdate game_id slot_index slot_settings \<Rightarrow>
          [Dispatch (GameAction (UpdateSlot game_id slot_index slot_settings))]
      | ListNodes nodes \<Rightarrow> [Dispatch (Imported updateNodes (Some nodes))]
      | PingUpdate m \<Rightarrow> [Dispatch (Imported updateNodesPing (Some m))]
      | GamePlayerPingMapSnapshot m \<Rightarrow> [Dispatch (GameAction (SetPingSnapshot (Some m)))]
      | GameSelectNode game_id node_id \<Rightarrow> [Dispatch (GameAction (UpdateNode game_id node_id))]
      | PlayerPingMapUpdate player_id ping_map \<Rightarrow>
          [Dispatch (GameAction (UpdateCurrentPing player_id ping_map))]
      | GameStartReject m \<Rightarrow> [Dispatch (Imported updateStartGameRejection (Some m))]
      | GameStarting m \<Rightarrow> [Dispatch (Imported updateStartGameLoading (Some m))]
      | GameStarted m \<Rightarrow> [Dispatch (Imported updateGameStarted (Some m))]
      | GameStartError m \<Rightarrow> [Dispatch (Imported updateStartGameError (Some m))]
      | GameSlotClientStatusUpdate m \<Rightarrow> [Dispatch (Imported updateSlotClientStatus (Some m))]
      | GameStatusUpdate m \<Rightarrow> [Dispatch (Imported updateGameStatus (Some m))]
      | OtherMessage m \<Rightarrow> [])"

text \<open>The actions a message makes the router dispatch, in order.\<close>

fun dispatched :: "effect list \<Rightarrow> action list" where
  "dispatched [] = []"
| "dispatched (Dispatch a # es) = a # dispatched es"
| "dispatched (RouterPush p # es) = dispatched es"

text \<open>
  The collaborator an action belongs to is the file its creator comes from: the
  connection slice (this file), the lobby slice (\<open>./game\<close>), the map slice (\<open>./map\<close>) or
  the node slice (\<open>./node\<close>).
\<close>

datatype collaborator = ConnectionState | LobbyGameState | MapCache | NodeCatalog

fun creator_file :: "imported_creator \<Rightarrow> collaborator" where
  "creator_file setMapListLoaded = MapCache"
| "creator_file setMapDetailLoaded = MapCache"
| "creator_file setMapListLoadError = MapCache"
| "creator_file setMapLoadDetailLoadError = MapCache"
| "creator_file updateNodes = NodeCatalog"
| "creator_file updateNodesPing = NodeCatalog"
| "creator_file updateStartGameRejection = LobbyGameState"
| "creator_file updateStartGameLoading = LobbyGameState"
| "creator_file updateGameStarted = LobbyGameState"
| "creator_file updateSlotClientStatus = LobbyGameState"
| "creator_file checkCurrentGameId = LobbyGameState"
| "creator_file updateGameStatus = LobbyGameState"
| "creator_file updateStartGameError = LobbyGameState"

fun collaborator_of :: "action \<Rightarrow> collaborator" where
  "collaborator_of (WsAction a) = ConnectionState"
| "collaborator_of (GameAction a) = LobbyGameState"
| "collaborator_of (Imported c arg) = creator_file c"

text \<open>
  The connection slice reduces the actions of its own and ignores every other action;
  \<open>wsAfter\<close> is the connection state once the store has reduced what the router
  dispatched.
\<close>

fun wsSliceReducer :: "action \<Rightarrow> WsState \<Rightarrow> WsState" where
  "wsSliceReducer (WsAction a) s = wsReducer a s"
| "wsSliceReducer (GameAction a) s = s"
| "wsSliceReducer (Imported c arg) s = s"

fun wsAfter :: "action list \<Rightarrow> WsState \<Rightarrow> WsState" where
  "wsAfter [] s = s"
| "wsAfter (a # as) s = wsAfter as (wsSliceReducer a s)"

text \<open>The tags for which the router dispatches a single action.\<close>

fun single_dispatch :: "WsMessage \<Rightarrow> bool" where
  "single_dispatch (PlayerSessionUpdate m) = False"
| "single_dispatch (Disconnect m) = False"
| "single_dispatch (OtherMessage m) = False"
| "single_dispatch m = True"

fun recognized :: "WsMessage \<Rightarrow> bool" where
  "recognized (OtherMessage m) = False"
| "recognized m = True"

section \<open>The generated \<open>Node\<close> message (\<open>node_pb.js\<close>)\<close>

text \<open>
  The generated class rests on the protobuf runtime (\<open>jspb.Message\<close>, \<open>BinaryWriter\<close>,
  \<open>BinaryReader\<close>), which is a library and not part of the repository.  The runtime is
  taken at the level of its interface: a message holds for every field number a value
  or \<open>null\<close>; a buffer is the sequence of the fields written to it, each a field number
  with a payload of one of the wire types; the reader hands the fields out one by one.
  An \<open>int32\<close> is a 32-bit word (read as a signed number); on the wire it is a varint
  of 64 bits, sign-extended by the writer and cut back to its low 32 bits by the
  reader.  A string is the sequence of its UTF-8 bytes, which is what a
  length-delimited field carries.
\<close>

type_synonym int32 = "32 word"

record Node =
  id_field :: "int32 option"
  name_field :: "string option"
  location_field :: "string option"
  ip_addr_field :: "string option"
  country_id_field :: "string option"

text \<open>\<open>new proto.node.Node\<close>: no field holds a value.\<close>

definition new_Node :: Node where
  "new_Node =
     \<lparr> id_field = None, name_field = None, location_field = None,
       ip_addr_field = None, country_id_field = None \<rparr>"

text \<open>
  \<open>jspb.Message.getFieldWithDefault\<close> gives the default where the field holds \<open>null\<close>;
  \<open>setProto3IntField\<close> and \<open>setProto3StringField\<close> store a value that differs from the
  default and store \<open>null\<close> for the default.
\<close>

definition getFieldWithDefault :: "'a option \<Rightarrow> 'a \<Rightarrow> 'a" where
  "getFieldWithDefault field default_value =
     (case field of None \<Rightarrow> default_value | Some v \<Rightarrow> v)"

definition setFieldIgnoringDefault :: "'a \<Rightarrow> 'a \<Rightarrow> 'a option" where
  "setFieldIgnoringDefault v default_value = (if v \<noteq> default_value then Some v else None)"

definition getId :: "Node \<Rightarrow> int32" where
  "getId msg = getFieldWithDefault (id_field msg) 0"

definition setId :: "int32 \<Rightarrow> Node \<Rightarrow> Node" where
  "setId v msg = msg\<lparr>id_field := setFieldIgnoringDefault v 0\<rparr>"

definition getName :: "Node \<Rightarrow> string" where
  "getName msg = getFieldWithDefault (name_field msg) []"

definition setName :: "string \<Rightarrow> Node \<Rightarrow> Node" where
  "setName v msg = msg\<lparr>name_field := setFieldIgnoringDefault v []\<rparr>"

definition getLocation :: "Node \<Rightarrow> string" where
  "getLocation msg = getFieldWithDefault (location_field msg) []"

definition setLocation :: "string \<Rightarrow> Node \<Rightarrow> Node" where
  "setLocation v msg = msg\<lparr>location_field := setFieldIgnoringDefault v []\<rparr>"

definition getIpAddr :: "Node \<Rightarrow> string" where
  "getIpAddr msg = getFieldWithDefault (ip_addr_field msg) []"

definition setIpAddr :: "string \<Rightarrow> Node \<Rightarrow> Node" where
  "setIpAddr v msg = msg\<lparr>ip_addr_field := setFieldIgnoringDefault v []\<rparr>"

definition getCountryId :: "Node \<Rightarrow> string" where
  "getCountryId msg = getFieldWithDefault (country_id_field msg) []"

definition setCountryId :: "string \<Rightarrow> Node \<Rightarrow> Node" where
  "setCountryId v msg = msg\<lparr>country_id_field := setFieldIgnoringDefault v []\<rparr>"

text \<open>
  The payload of a field on the wire, by wire type.  A group is held with the fields
  between its start tag and its end tag; \<open>EndGroup\<close> is an end tag met on its own.
\<close>

datatype wire_value =
    Varint "64 word"
  | Fixed64 "64 word"
  | Delimited string
  | Group "(nat \<times> wire_value) list"
  | EndGroup
  | Fixed32 "32 word"

type_synonym wire_field = "nat \<times> wire_value"

datatype reader_error = WireTypeMismatch

definition writeInt32 :: "nat \<Rightarrow> int32 \<Rightarrow> wire_field list \<Rightarrow> wire_field list" where
  "writeInt32 field v writer = writer @ [(field, Varint (scast v))]"

definition writeString :: "nat \<Rightarrow> string \<Rightarrow> wire_field list \<Rightarrow> wire_field list" where
  "writeString field v writer = writer @ [(field, Delimited v)]"

definition readInt32 :: "wire_field \<Rightarrow> reader_error + int32" where
  "readInt32 f = (case snd f of Varint v \<Rightarrow> Inr (ucast v) | _ \<Rightarrow> Inl WireTypeMismatch)"

definition readString :: "wire_field \<Rightarrow> reader_error + string" where
  "readString f = (case snd f of Delimited v \<Rightarrow> Inr v | _ \<Rightarrow> Inl WireTypeMismatch)"

definition isEndGroup :: "wire_field \<Rightarrow> bool" where
  "isEndGroup f = (snd f = EndGroup)"

definition getFieldNumber :: "wire_field \<Rightarrow> nat" where
  "getFieldNumber f = fst f"

text \<open>
  The five conditional writes of \<open>serializeBinaryToWriter\<close>, in the order of the
  source: \<open>f !== 0\<close> for the number, \<open>f.length > 0\<close> for each string.
\<close>

definition serializeBinaryToWriter :: "Node \<Rightarrow> wire_field list \<Rightarrow> wire_field list" where
  "serializeBinaryToWriter msg writer =
     (let f = getId msg;
          writer = (if f \<noteq> 0 then writeInt32 1 f writer else writer);
          f = getName msg;
          writer = (if length f > 0 then writeString 2 f writer else writer);
          f = getLocation msg;
          writer = (if length f > 0 then writeString 3 f writer else writer);
          f = getIpAddr msg;
          writer = (if length f > 0 then writeString 4 f writer else writer);
          f = getCountryId msg
      in if length f > 0 then writeString 5 f writer else writer)"

definition serializeBinary :: "Node \<Rightarrow> wire_field list" where
  "serializeBinary msg = serializeBinaryToWriter msg []"

text \<open>
  The loop of \<open>deserializeBinaryFromReader\<close>: \<open>nextField\<close> hands out the next field
  until the buffer is exhausted, an end tag breaks the loop, the fields 1 to 5 are
  read and stored through the setters, and any other field is skipped.
\<close>

fun deserializeBinaryFromReader :: "Node \<Rightarrow> wire_field list \<Rightarrow> reader_error + Node" where
  "deserializeBinaryFromReader msg [] = Inr msg"
| "deserializeBinaryFromReader msg (f # reader) =
     (if isEndGroup f then Inr msg
      else if getFieldNumber f = 1 then
        (case readInt32 f of
           Inl e \<Rightarrow> Inl e
         | Inr v \<Rightarrow> deserializeBinaryFromReader (setId v msg) reader)
      else if getFieldNumber f = 2 then
        (case readString f of
           Inl e \<Rightarrow> Inl e
         | Inr v \<Rightarrow> deserializeBinaryFromReader (setName v msg) reader)
      else if getFieldNumber f = 3 then
        (case readString f of
           Inl e \<Rightarrow> Inl e
         | Inr v \<Rightarrow> deserializeBinaryFromReader (setLocation v msg) reader)
      else if getFieldNumber f = 4 then
        (case readString f of
           Inl e \<Rightarrow> Inl e
         | Inr v \<Rightarrow> deserializeBinaryFromReader (setIpAddr v msg) reader)
      else if getFieldNumber f = 5 then
        (case readString f of
           Inl e \<Rightarrow> Inl e
         | Inr v \<Rightarrow> deserializeBinaryFromReader (setCountryId v msg) reader)
      else deserializeBinaryFromReader msg reader)"

definition deserializeBinary :: "wire_field list \<Rightarrow> reader_error + Node" where
  "deserializeBinary bytes = deserializeBinaryFromReader new_Node bytes"

text \<open>A field number is written when the buffer holds a field with that number.\<close>

definition written :: "nat \<Rightarrow> wire_field list \<Rightarrow> bool" where
  "written field buffer = (field \<in> set (map getFieldNumber buffer))"

section \<open>Properties of the connection slice\<close>

text \<open>
  The coupling between the error field and the status is established by \<open>updateError\<close>
  and is kept by every reducer that leaves the status alone or sets it to
  \<open>Disconnected\<close>.
\<close>

lemma status_guarded_step:
  assumes "status_guarded (a # as) s" and "error s \<noteq> None \<longrightarrow> status s = Disconnected"
  shows "status_guarded as (wsReducer a s)"
    and "error (wsReducer a s) \<noteq> None \<longrightarrow> status (wsReducer a s) = Disconnected"
  using assms
  by (cases a;
      auto simp: updateStatus_def updateError_def updateClientInfo_def
        updateReloadClientInfoError_def updateClientInfoReloading_def updatePlayerSession_def
        updatePlayerSessionPartial_def updatePlayerSessionLoading_def
        updatePlayerSessionError_def setWsDisconnected_def setDisconnectError_def Let_def)+

lemma status_guarded_invariant:
  "status_guarded as s \<Longrightarrow> (error s \<noteq> None \<longrightarrow> status s = Disconnected) \<Longrightarrow>
   error (wsRun as s) \<noteq> None \<longrightarrow> status (wsRun as s) = Disconnected"
proof (induction as arbitrary: s)
  case Nil
  then show ?case by simp
next
  case (Cons a as)
  from status_guarded_step [OF Cons.prems] Cons.IH [of "wsReducer a s"]
  show ?case by simp
qed

text \<open>
  Claim C4 as the spec states it fails: \<open>updateError\<close> with an error followed by
  \<open>updateStatus Connected\<close> reaches a state whose error field is not \<open>null\<close> and whose
  status is \<open>Connected\<close>.
\<close>

theorem error_forces_Disconnected_counterexample:
  "error (wsRun [UpdateError (Some (SerializedError ''closed'')), UpdateStatus Connected] wsInitialState) \<noteq> None
   \<and> status (wsRun [UpdateError (Some (SerializedError ''closed'')), UpdateStatus Connected] wsInitialState)
       \<noteq> Disconnected"
  by (simp add: wsInitialState_def updateError_def updateStatus_def Let_def)

text \<open>
  Claim C4, amended: in every state reached from the initial state by a run of the
  slice's reducers in which each \<open>updateStatus\<close> either sets \<open>Disconnected\<close> or is applied
  while the error field is \<open>null\<close>, a non-null error field comes with the status
  \<open>Disconnected\<close>.
\<close>

theorem error_forces_Disconnected_guarded:
  "status_guarded as wsInitialState \<Longrightarrow> error (wsRun as wsInitialState) \<noteq> None \<Longrightarrow>
   status (wsRun as wsInitialState) = Disconnected"
  using status_guarded_invariant [of as wsInitialState] by (simp add: wsInitialState_def)

theorem error_forces_Disconnected_guarded_witness:
  "status_guarded [UpdateStatus Connected, UpdateError (Some (SerializedError ''closed'')), SetDisconnectError None] wsInitialState
   \<and> error (wsRun [UpdateStatus Connected, UpdateError (Some (SerializedError ''closed'')), SetDisconnectError None] wsInitialState) \<noteq> None
   \<and> status (wsRun [UpdateStatus Connected, UpdateError (Some (SerializedError ''closed'')), SetDisconnectError None] wsInitialState) = Disconnected"
proof -
  let ?as = "[UpdateStatus Connected, UpdateError (Some (SerializedError ''closed'')), SetDisconnectError None]"
  have g: "status_guarded ?as wsInitialState"
    by (simp add: wsInitialState_def updateStatus_def updateError_def Let_def)
  have e: "error (wsRun ?as wsInitialState) \<noteq> None"
    by (simp add: wsInitialState_def updateStatus_def updateError_def setDisconnectError_def Let_def)
  from error_forces_Disconnected_guarded [OF g e] g e show ?thesis by simp
qed

section \<open>Properties of the router\<close>

text \<open>
  Claim C5 as the spec states it fails: a \<open>Disconnect\<close> message that arrives while the
  status is \<open>Connected\<close> leaves the status \<open>Connected\<close>.
\<close>

theorem Disconnect_status_counterexample:
  "status (wsAfter (dispatched (dispatchMessage ''/lobby'' (Disconnect ''closed'')))
             (wsRun [UpdateStatus Connected] wsInitialState)) \<noteq> Disconnected"
  by (simp add: dispatchMessage_def Let_def updatePlayerSessionError_def setDisconnectError_def
        updateStatus_def wsInitialState_def)

text \<open>
  Claim C5, amended: for every state and every \<open>Disconnect\<close> message, dispatching it sets
  \<open>disconnectError\<close> to the error built from the message of the payload and leaves the
  status as it was; it also stores that error as \<open>playerSessionError\<close> and clears the
  player session.
\<close>

theorem Disconnect_sets_disconnectError:
  "disconnectError (wsAfter (dispatched (dispatchMessage pathname (Disconnect m))) state)
     = Some (SerializedError m)
   \<and> status (wsAfter (dispatched (dispatchMessage pathname (Disconnect m))) state) = status state
   \<and> playerSessionError (wsAfter (dispatched (dispatchMessage pathname (Disconnect m))) state)
       = Some (SerializedError m)
   \<and> playerSession (wsAfter (dispatched (dispatchMessage pathname (Disconnect m))) state) = None"
  by (simp add: dispatchMessage_def Let_def updatePlayerSessionError_def setDisconnectError_def)

text \<open>
  Claim C8 as the spec states it fails: for the recognized tag \<open>PlayerSessionUpdate\<close> the
  router dispatches two actions, the first of the lobby slice's file and the second of
  the connection slice.
\<close>

theorem dispatch_one_entrypoint_counterexample:
  "recognized (PlayerSessionUpdate fmempty)
   \<and> map collaborator_of (dispatched (dispatchMessage ''/lobby'' (PlayerSessionUpdate fmempty)))
       = [LobbyGameState, ConnectionState]"
  by (simp add: dispatchMessage_def)

text \<open>
  Claim C8, amended: for every recognized tag other than \<open>PlayerSessionUpdate\<close> and
  \<open>Disconnect\<close> the router dispatches exactly one action (hence to one collaborator:
  the connection slice, the lobby slice, the map slice or the node slice); for
  \<open>Disconnect\<close> it dispatches \<open>updatePlayerSessionError\<close> and then \<open>setDisconnectError\<close>,
  both of the connection slice; for \<open>PlayerSessionUpdate\<close> it dispatches
  \<open>checkCurrentGameId\<close> of the lobby slice's file and then \<open>updatePlayerSessionPartial\<close>
  of the connection slice; for a tag it does not recognize it does nothing.
\<close>

theorem dispatch_entrypoints:
  "(single_dispatch msg \<longrightarrow> (\<exists>a. dispatched (dispatchMessage pathname msg) = [a]))
   \<and> dispatched (dispatchMessage pathname (Disconnect m))
       = [WsAction (UpdatePlayerSessionError (Some (SerializedError m))),
          WsAction (SetDisconnectError (Some (SerializedError m)))]
   \<and> dispatched (dispatchMessage pathname (PlayerSessionUpdate payload))
       = [Imported checkCurrentGameId (fmlookup payload ''game_id''),
          WsAction (UpdatePlayerSessionPartial payload)]
   \<and> (\<not> recognized msg \<longrightarrow> dispatchMessage pathname msg = [])"
  by (cases msg) (simp_all add: dispatchMessage_def Let_def)

theorem dispatch_entrypoints_witness:
  "single_dispatch (GameSelectNode 1 (Some 9))
   \<and> dispatched (dispatchMessage ''/'' (GameSelectNode 1 (Some 9))) = [GameAction (UpdateNode 1 (Some 9))]
   \<and> \<not> recognized (OtherMessage JSNull)
   \<and> dispatchMessage ''/'' (OtherMessage JSNull) = []"
  using dispatch_entrypoints [of "GameSelectNode 1 (Some 9)" "''/''"]
        dispatch_entrypoints [of "OtherMessage JSNull" "''/''"]
  by (simp add: dispatchMessage_def)

section \<open>Properties of the lobby slice\<close>

text \<open>
  Claim C6: for every state, \<open>updateCurrentGame\<close> with a \<open>null\<close> payload yields a state
  whose \<open>currentGame\<close>, \<open>currentNodeId\<close>, \<open>currentPingMap\<close> and \<open>createGameError\<close> are
  \<open>null\<close> and whose \<open>currentNodeLoading\<close> is false.
\<close>

theorem replaceGame_null:
  "currentGame (updateCurrentGame None state) = None
   \<and> currentNodeId (updateCurrentGame None state) = None
   \<and> currentPingMap (updateCurrentGame None state) = None
   \<and> currentNodeLoading (updateCurrentGame None state) = False
   \<and> createGameError (updateCurrentGame None state) = None"
  by (simp add: updateCurrentGame_def)

text \<open>
  Claim C1: when there is no current game, or the \<open>game_id\<close> of the payload is not the
  id of the current game, each of \<open>updateSlot\<close>, \<open>updateNode\<close>, \<open>updatePlayerEnter\<close> and
  \<open>updatePlayerLeave\<close> returns the state it was given (so the current game, its slots,
  the node and the ping data are unchanged), without an exception and without a line
  on the console.
\<close>

theorem stale_game_id_dropped:
  assumes "case currentGame state of None \<Rightarrow> True | Some g \<Rightarrow> id_GameInfo g \<noteq> game_id"
  shows "updateSlot game_id slot_index slot_settings state = Inr state
         \<and> updateNode game_id node_id state = state
         \<and> updatePlayerEnter game_id slot_index slot state = state
         \<and> updatePlayerLeave game_id player_id state = Inr (state, [])"
proof (cases "currentGame state")
  case None
  then show ?thesis
    by (simp add: updateSlot_def updateNode_def updatePlayerEnter_def updatePlayerLeave_def)
next
  case (Some g)
  with assms have "id_GameInfo g \<noteq> game_id" by simp
  with Some show ?thesis
    by (simp add: updateSlot_def updateNode_def updatePlayerEnter_def updatePlayerLeave_def)
qed

theorem stale_game_id_dropped_witness:
  "(case currentGame scenario_state of None \<Rightarrow> True | Some g \<Rightarrow> id_GameInfo g \<noteq> 2)
   \<and> updateSlot 2 0 (settings scenario_slot) scenario_state = Inr scenario_state
   \<and> updateNode 2 (Some 9) scenario_state = scenario_state
   \<and> updatePlayerEnter 2 0 scenario_slot scenario_state = scenario_state
   \<and> updatePlayerLeave 2 7 scenario_state = Inr (scenario_state, [])"
proof -
  have h: "case currentGame scenario_state of None \<Rightarrow> True | Some g \<Rightarrow> id_GameInfo g \<noteq> 2"
    by (simp add: scenario_state_def)
  from stale_game_id_dropped [OF h] h show ?thesis by simp
qed





text \<open>
  Outside the declared type: an \<open>updatePlayerEnter\<close> whose index lies past the end of
  the array leaves an empty position behind, and the callback of \<open>find\<close> throws when it
  reads that position.
\<close>

lemma sparse_state_slots:
  "currentGame sparse_state =
     Some \<lparr> id_GameInfo = 1, slots = [Some scenario_slot, None, Some visitor_slot],
            node = None, rest_GameInfo = JSNull \<rparr>"
  by (simp add: sparse_state_def scenario_state_def updatePlayerEnter_def array_set_def)

lemma updatePlayerLeave_sparse: "updatePlayerLeave 1 8 sparse_state = Inl TypeError"
  by (simp add: sparse_state_slots updatePlayerLeave_def has_player_def scenario_slot_def)

text \<open>The loop over the entries of a delta merges the delta into the player's map.\<close>

lemma distinct_Object_entries: "distinct (map fst (Object_entries d))"
proof -
  have "map fst (Object_entries d) = sorted_list_of_fset (fmdom d)"
    by (simp add: Object_entries_def sorted_list_of_fmap_def comp_def)
  moreover have "distinct (sorted_list_of_fset (fmdom d))"
    by (simp add: sorted_list_of_fset.rep_eq)
  ultimately show ?thesis by simp
qed

lemma fmlookup_assign_entries:
  "distinct (map fst es) \<Longrightarrow>
   fmlookup (assign_entries es m) k =
     (case map_of es k of Some v \<Rightarrow> Some v | None \<Rightarrow> fmlookup m k)"
proof (induction es arbitrary: m)
  case Nil
  then show ?case by simp
next
  case (Cons e es)
  obtain a b where e: "e = (a, b)" by (cases e)
  from Cons.prems e have "map_of es a = None"
    by (simp add: map_of_eq_None_iff)
  with Cons e show ?case by (simp split: option.splits)
qed

lemma assign_entries_Object_entries: "assign_entries (Object_entries d) m = m ++\<^sub>f d"
proof (rule fmap_ext)
  fix k
  have "map_of (Object_entries d) = fmlookup d"
    by (simp add: Object_entries_def)
  then show "fmlookup (assign_entries (Object_entries d) m) k = fmlookup (m ++\<^sub>f d) k"
    by (simp add: fmlookup_assign_entries [OF distinct_Object_entries] fmlookup_dom_iff
        split: option.splits)
qed

lemma updateCurrentPing_merge:
  "updateCurrentPing p d s =
     s\<lparr>currentPingMap := Some (fmupd p (player_pings s p ++\<^sub>f d) (ping_players s))\<rparr>"
  by (simp add: updateCurrentPing_def player_pings_def ping_players_def
      assign_entries_Object_entries split: option.splits)

lemma ping_players_update [simp]:
  "ping_players (s\<lparr>currentPingMap := Some pm\<rparr>) = pm"
  by (simp add: ping_players_def)

lemma player_pings_update [simp]:
  "player_pings (s\<lparr>currentPingMap := Some (fmupd p m pm)\<rparr>) q =
     (if q = p then m else (case fmlookup pm q of None \<Rightarrow> fmempty | Some m' \<Rightarrow> m'))"
  by (simp add: player_pings_def)

lemma fmadd_twice: "(m ++\<^sub>f d) ++\<^sub>f d = m ++\<^sub>f d"
  by (rule fmap_ext) simp

text \<open>
  Claim C2: applying \<open>updateCurrentPing\<close> twice with the same payload gives the state
  that applying it once gives; and its effect is the merge of the spec: without a map
  for the player (\<open>currentPingMap\<close> is \<open>null\<close>, or holds no entry for the player) the
  delta is installed as it is, otherwise the player's map is replaced by one that holds
  the delta's ping for every node of the delta and the old ping for every other node;
  the maps of the other players are untouched.
\<close>

theorem mergePing_idempotent:
  "updateCurrentPing player_id ping_map (updateCurrentPing player_id ping_map state)
     = updateCurrentPing player_id ping_map state
   \<and> (case currentPingMap state of
         None \<Rightarrow>
           currentPingMap (updateCurrentPing player_id ping_map state)
             = Some (fmupd player_id ping_map fmempty)
       | Some pm \<Rightarrow>
           (case fmlookup pm player_id of
              None \<Rightarrow>
                currentPingMap (updateCurrentPing player_id ping_map state)
                  = Some (fmupd player_id ping_map pm)
            | Some m \<Rightarrow>
                (\<exists>m'. currentPingMap (updateCurrentPing player_id ping_map state)
                         = Some (fmupd player_id m' pm)
                     \<and> (\<forall>node_id. fmlookup m' node_id =
                           (if node_id |\<in>| fmdom ping_map then fmlookup ping_map node_id
                            else fmlookup m node_id)))))"
proof
  show "updateCurrentPing player_id ping_map (updateCurrentPing player_id ping_map state)
          = updateCurrentPing player_id ping_map state"
    by (simp add: updateCurrentPing_merge fmadd_twice)
next
  show "case currentPingMap state of
          None \<Rightarrow>
            currentPingMap (updateCurrentPing player_id ping_map state)
              = Some (fmupd player_id ping_map fmempty)
        | Some pm \<Rightarrow>
            (case fmlookup pm player_id of
               None \<Rightarrow>
                 currentPingMap (updateCurrentPing player_id ping_map state)
                   = Some (fmupd player_id ping_map pm)
             | Some m \<Rightarrow>
                 (\<exists>m'. currentPingMap (updateCurrentPing player_id ping_map state)
                          = Some (fmupd player_id m' pm)
                      \<and> (\<forall>node_id. fmlookup m' node_id =
                            (if node_id |\<in>| fmdom ping_map then fmlookup ping_map node_id
                             else fmlookup m node_id))))"
    by (auto simp: updateCurrentPing_def assign_entries_Object_entries split: option.splits)
qed

text \<open>The spec's scenario: two deltas of player 7, starting without ping data.\<close>

lemma scenario_mergePing:
  "currentPingMap (updateCurrentPing 7 (fmupd 9 42 fmempty) gameInitialState)
     = Some (fmupd 7 (fmupd 9 42 fmempty) fmempty)
   \<and> currentPingMap (updateCurrentPing 7 (fmupd 9 50 (fmupd 10 12 fmempty))
        (updateCurrentPing 7 (fmupd 9 42 fmempty) gameInitialState))
     = Some (fmupd 7 (fmupd 9 50 (fmupd 10 12 fmempty)) fmempty)"
proof -
  have "fmupd 9 50 (fmupd 10 12 (fmupd 9 42 fmempty)) = fmupd 9 50 (fmupd 10 12 (fmempty :: PingMap))"
    by (rule fmap_ext) simp
  then show ?thesis
    by (simp add: updateCurrentPing_merge gameInitialState_def player_pings_def ping_players_def)
qed

lemma applyPingDeltas_snoc:
  "applyPingDeltas (ds @ [(p, d)]) s = updateCurrentPing p d (applyPingDeltas ds s)"
  by (induction ds s rule: applyPingDeltas.induct) simp_all

lemma last_filter_index:
  assumes "i < length xs" and "P (xs ! i)"
    and "\<forall>j. i < j \<and> j < length xs \<longrightarrow> \<not> P (xs ! j)"
  shows "filter P xs \<noteq> []" and "last (filter P xs) = xs ! i"
proof -
  have split: "xs = take i xs @ xs ! i # drop (Suc i) xs"
    using assms(1) by (rule id_take_nth_drop)
  have "\<not> P x" if "x \<in> set (drop (Suc i) xs)" for x
  proof -
    from that obtain k where k: "k < length (drop (Suc i) xs)" "x = drop (Suc i) xs ! k"
      by (auto simp: in_set_conv_nth)
    then have "x = xs ! (Suc i + k)" and "Suc i + k < length xs"
      by simp_all
    with assms(3) show ?thesis by simp
  qed
  then have "filter P (drop (Suc i) xs) = []"
    by (simp add: filter_empty_conv)
  then have "filter P xs = filter P (take i xs) @ [xs ! i]"
    using assms(2) by (subst split) simp
  then show "filter P xs \<noteq> []" and "last (filter P xs) = xs ! i"
    by simp_all
qed

text \<open>
  The state after a sequence of deltas: the other fields are those of the start, the
  players are those of the start and of the deltas, and the ping of a pair is the ping
  of the last delta that writes the pair.
\<close>

lemma applyPingDeltas_frame:
  "applyPingDeltas ds s = s\<lparr>currentPingMap := currentPingMap (applyPingDeltas ds s)\<rparr>"
proof (induction ds rule: rev_induct)
  case Nil
  show ?case by simp
next
  case (snoc x ds)
  obtain p d where x: "x = (p, d)" by (cases x)
  show ?case
    unfolding x applyPingDeltas_snoc updateCurrentPing_merge
    by (subst (3) snoc.IH) simp
qed

lemma applyPingDeltas_not_null:
  "ds \<noteq> [] \<Longrightarrow>
   currentPingMap (applyPingDeltas ds s) = Some (ping_players (applyPingDeltas ds s))"
proof (induction ds rule: rev_induct)
  case Nil
  then show ?case by simp
next
  case (snoc x ds)
  obtain p d where x: "x = (p, d)" by (cases x)
  show ?case
    unfolding x applyPingDeltas_snoc updateCurrentPing_merge by simp
qed

lemma applyPingDeltas_players:
  "fmdom (ping_players (applyPingDeltas ds s)) =
     fmdom (ping_players s) |\<union>| fset_of_list (map fst ds)"
proof (induction ds rule: rev_induct)
  case Nil
  show ?case by simp
next
  case (snoc x ds)
  obtain p d where x: "x = (p, d)" by (cases x)
  show ?case
    unfolding x applyPingDeltas_snoc updateCurrentPing_merge
    using snoc.IH by auto
qed

lemma applyPingDeltas_pings:
  "fmlookup (player_pings (applyPingDeltas ds s) q) n =
     (if filter (writes_pair q n) ds = [] then fmlookup (player_pings s q) n
      else fmlookup (snd (last (filter (writes_pair q n) ds))) n)"
proof (induction ds rule: rev_induct)
  case Nil
  show ?case by simp
next
  case (snoc x ds)
  obtain p d where x: "x = (p, d)" by (cases x)
  show ?case
  proof (cases "writes_pair q n x")
    case True
    then have "q = p" and "n |\<in>| fmdom d"
      by (simp_all add: writes_pair_def x)
    with True show ?thesis
      unfolding x applyPingDeltas_snoc updateCurrentPing_merge
      by (simp add: x)
  next
    case False
    have "fmlookup (player_pings (applyPingDeltas (ds @ [x]) s) q) n =
          fmlookup (player_pings (applyPingDeltas ds s) q) n"
    proof (cases "q = p")
      case True
      with False have "n |\<notin>| fmdom d"
        by (simp add: writes_pair_def x)
      with True show ?thesis
        unfolding x applyPingDeltas_snoc updateCurrentPing_merge
        by (simp add: fmdom_notD)
    next
      case False
      then show ?thesis
        unfolding x applyPingDeltas_snoc updateCurrentPing_merge
        by (simp add: player_pings_def)
    qed
    with False snoc.IH show ?thesis by simp
  qed
qed

lemma ping_map_eqI:
  assumes "fmdom (ping_players t) = fmdom (ping_players u)"
    and "\<And>q n. fmlookup (player_pings t q) n = fmlookup (player_pings u q) n"
  shows "ping_players t = ping_players u"
proof (rule fmap_ext)
  fix q
  show "fmlookup (ping_players t) q = fmlookup (ping_players u) q"
  proof (cases "q |\<in>| fmdom (ping_players t)")
    case True
    then obtain m where mt: "fmlookup (ping_players t) q = Some m"
      by (auto simp: fmlookup_dom_iff)
    from True assms(1) have "q |\<in>| fmdom (ping_players u)" by simp
    then obtain m' where mu: "fmlookup (ping_players u) q = Some m'"
      by (auto simp: fmlookup_dom_iff)
    note m = mt mu
    then have "player_pings t q = m" "player_pings u q = m'"
      by (simp_all add: player_pings_def)
    with assms(2) [of q] have "m = m'"
      by (auto intro: fmap_ext)
    with m show ?thesis by simp
  next
    case False
    with assms(1) show ?thesis
      by (simp add: fmdom_notD)
  qed
qed

text \<open>
  A reordering \<open>ys\<close> of \<open>xs\<close> is given by a bijection \<open>\<pi>\<close> on the positions: position \<open>i\<close>
  of \<open>ys\<close> holds the delta of position \<open>\<pi> i\<close> of \<open>xs\<close>.  When conflicting deltas keep
  their order, the last delta that writes a pair is the same in both.
\<close>

lemma reorder_set:
  assumes "bij_betw \<pi> {..<length xs} {..<length xs}"
    and "ys = map (\<lambda>i. xs ! \<pi> i) [0..<length xs]"
  shows "set ys = set xs"
proof -
  have "set ys = (\<lambda>i. xs ! \<pi> i) ` {..<length xs}"
    using assms(2) by (simp add: atLeast0LessThan)
  also have "\<dots> = (\<lambda>k. xs ! k) ` (\<pi> ` {..<length xs})"
    by (simp add: image_image)
  also have "\<pi> ` {..<length xs} = {..<length xs}"
    using assms(1) by (simp add: bij_betw_def)
  also have "(\<lambda>k. xs ! k) ` {..<length xs} = set xs"
    by (auto simp: set_conv_nth)
  finally show ?thesis .
qed

lemma reorder_last_writer:
  assumes bij: "bij_betw \<pi> {..<length xs} {..<length xs}"
    and ys: "ys = map (\<lambda>i. xs ! \<pi> i) [0..<length xs]"
    and ord: "\<forall>i j. i < j \<and> j < length xs \<and> ping_conflict (ys ! i) (ys ! j) \<longrightarrow> \<pi> i < \<pi> j"
  shows "(if filter (writes_pair q n) ys = [] then a else f (last (filter (writes_pair q n) ys))) =
         (if filter (writes_pair q n) xs = [] then a else f (last (filter (writes_pair q n) xs)))"
proof (cases "filter (writes_pair q n) xs = []")
  case True
  then have "\<forall>x\<in>set xs. \<not> writes_pair q n x"
    by (simp add: filter_empty_conv)
  then have "filter (writes_pair q n) ys = []"
    by (simp add: filter_empty_conv reorder_set [OF bij ys])
  with True show ?thesis by simp
next
  case False
  let ?P = "writes_pair q n"
  let ?A = "{i. i < length xs \<and> ?P (xs ! i)}"
  have len: "length ys = length xs" and nth: "\<And>i. i < length xs \<Longrightarrow> ys ! i = xs ! \<pi> i"
    by (simp_all add: ys)
  have range: "\<And>i. i < length xs \<Longrightarrow> \<pi> i < length xs"
    using bij by (auto simp: bij_betw_def)
  from False obtain x where "x \<in> set xs" "?P x"
    by (auto simp: filter_empty_conv)
  then have "?A \<noteq> {}"
    by (auto simp: in_set_conv_nth)
  moreover have fin: "finite ?A" by simp
  ultimately have "Max ?A \<in> ?A" by (rule Max_in [rotated])
  define k where "k = Max ?A"
  have k: "k < length xs" "?P (xs ! k)"
    using \<open>Max ?A \<in> ?A\<close> by (simp_all add: k_def)
  have k_max: "j \<le> k" if "j < length xs" "?P (xs ! j)" for j
    unfolding k_def using fin that by (intro Max_ge) simp_all
  have "\<forall>j. k < j \<and> j < length xs \<longrightarrow> \<not> ?P (xs ! j)"
  proof (intro allI impI notI)
    fix j
    assume "k < j \<and> j < length xs" and "?P (xs ! j)"
    with k_max [of j] show False by simp
  qed
  note xs_last = last_filter_index [of k xs ?P, OF k this]
  from bij have "\<pi> ` {..<length xs} = {..<length xs}"
    by (simp add: bij_betw_def)
  with k(1) have "k \<in> \<pi> ` {..<length xs}" by simp
  then obtain i where i: "i < length xs" "\<pi> i = k"
    by auto
  have Pi: "?P (ys ! i)"
    using i k nth by simp
  have "\<not> ?P (ys ! j)" if j: "i < j" "j < length ys" for j
  proof
    assume Pj: "?P (ys ! j)"
    from j len have jn: "j < length xs" by simp
    from Pi Pj have "ping_conflict (ys ! i) (ys ! j)"
      by (auto simp: writes_pair_def ping_conflict_def)
    with ord j(1) jn have "\<pi> i < \<pi> j" by blast
    moreover have "\<pi> j \<le> k"
      using Pj jn nth range by (intro k_max) simp_all
    ultimately show False using i(2) by simp
  qed
  then have "\<forall>j. i < j \<and> j < length ys \<longrightarrow> \<not> ?P (ys ! j)"
    by blast
  moreover from i(1) len have "i < length ys" by simp
  ultimately have ys_last: "filter ?P ys \<noteq> []" "last (filter ?P ys) = ys ! i"
    using Pi by (rule last_filter_index [rotated 2])+
  have "last (filter ?P ys) = last (filter ?P xs)"
    using ys_last xs_last i nth by simp
  with ys_last(1) xs_last(1) show ?thesis
    by simp
qed

lemma applyPingDeltas_reorder:
  assumes bij: "bij_betw \<pi> {..<length xs} {..<length xs}"
    and ys: "ys = map (\<lambda>i. xs ! \<pi> i) [0..<length xs]"
    and ord: "\<forall>i j. i < j \<and> j < length xs \<and> ping_conflict (ys ! i) (ys ! j) \<longrightarrow> \<pi> i < \<pi> j"
  shows "applyPingDeltas ys s = applyPingDeltas xs s"
proof (cases "xs = []")
  case True
  with ys show ?thesis by simp
next
  case False
  with ys have ne: "ys \<noteq> []" by simp
  have "fmdom (ping_players (applyPingDeltas ys s)) = fmdom (ping_players (applyPingDeltas xs s))"
    using reorder_set [OF bij ys]
    by (simp add: applyPingDeltas_players fset_of_list.abs_eq [symmetric] fset_eq_iff fset_of_list.rep_eq)
  moreover have "fmlookup (player_pings (applyPingDeltas ys s) q) n =
                 fmlookup (player_pings (applyPingDeltas xs s) q) n" for q n
    unfolding applyPingDeltas_pings by (rule reorder_last_writer [OF bij ys ord])
  ultimately have "ping_players (applyPingDeltas ys s) = ping_players (applyPingDeltas xs s)"
    by (rule ping_map_eqI)
  then have "currentPingMap (applyPingDeltas ys s) = currentPingMap (applyPingDeltas xs s)"
    using applyPingDeltas_not_null [OF ne] applyPingDeltas_not_null [OF False] by simp
  then show ?thesis
    using applyPingDeltas_frame [of ys s] applyPingDeltas_frame [of xs s] by simp
qed

lemma ping_conflict_sym: "ping_conflict a b \<longleftrightarrow> ping_conflict b a"
  by (auto simp: ping_conflict_def)

lemma updateCurrentPing_commute:
  assumes "\<not> ping_conflict a b"
  shows "applyPingDeltas [b, a] s = applyPingDeltas [a, b] s"
proof (rule applyPingDeltas_reorder [where \<pi> = "\<lambda>i. 1 - i"])
  show "bij_betw (\<lambda>i. 1 - i) {..<length [a, b]} {..<length [a, b]}"
    by (auto simp: bij_betw_def inj_on_def lessThan_Suc)
  show "[b, a] = map (\<lambda>i. [a, b] ! (1 - i)) [0..<length [a, b]]"
    by (simp add: upt_rec)
  show "\<forall>i j. i < j \<and> j < length [a, b] \<and> ping_conflict ([b, a] ! i) ([b, a] ! j) \<longrightarrow> 1 - i < 1 - j"
    using assms by (auto simp: less_Suc_eq ping_conflict_sym)
qed

text \<open>
  Claim C3: let \<open>ys\<close> be a reordering of the deltas \<open>xs\<close> in which any two deltas that
  write a common pair of player and node stand in the order they have in \<open>xs\<close>; then
  applying \<open>ys\<close> and applying \<open>xs\<close> to the same state give the same state.  In
  particular two deltas that write no common pair commute.
\<close>

theorem mergePing_order_independent:
  "(bij_betw \<pi> {..<length xs} {..<length xs}
      \<and> ys = map (\<lambda>i. xs ! \<pi> i) [0..<length xs]
      \<and> (\<forall>i j. i < j \<and> j < length xs \<and> ping_conflict (ys ! i) (ys ! j) \<longrightarrow> \<pi> i < \<pi> j)
    \<longrightarrow> applyPingDeltas ys state = applyPingDeltas xs state)
   \<and> (\<not> ping_conflict (p, d) (p', d')
      \<longrightarrow> updateCurrentPing p' d' (updateCurrentPing p d state)
          = updateCurrentPing p d (updateCurrentPing p' d' state))"
proof (intro conjI impI)
  assume "bij_betw \<pi> {..<length xs} {..<length xs}
      \<and> ys = map (\<lambda>i. xs ! \<pi> i) [0..<length xs]
      \<and> (\<forall>i j. i < j \<and> j < length xs \<and> ping_conflict (ys ! i) (ys ! j) \<longrightarrow> \<pi> i < \<pi> j)"
  then have bij: "bij_betw \<pi> {..<length xs} {..<length xs}"
    and ys: "ys = map (\<lambda>i. xs ! \<pi> i) [0..<length xs]"
    and ord: "\<forall>i j. i < j \<and> j < length xs \<and> ping_conflict (ys ! i) (ys ! j) \<longrightarrow> \<pi> i < \<pi> j"
    by blast+
  then show "applyPingDeltas ys state = applyPingDeltas xs state"
    by (rule applyPingDeltas_reorder)
next
  assume "\<not> ping_conflict (p, d) (p', d')"
  then have "applyPingDeltas [(p', d'), (p, d)] state = applyPingDeltas [(p, d), (p', d')] state"
    by (rule updateCurrentPing_commute)
  then show "updateCurrentPing p' d' (updateCurrentPing p d state)
          = updateCurrentPing p d (updateCurrentPing p' d' state)"
    by simp
qed

theorem mergePing_order_independent_witness:
  "applyPingDeltas [delta_B, delta_A, delta_C] gameInitialState
     = applyPingDeltas [delta_A, delta_B, delta_C] gameInitialState
   \<and> updateCurrentPing 8 (fmupd 10 1 fmempty) (updateCurrentPing 7 (fmupd 9 42 fmempty) gameInitialState)
     = updateCurrentPing 7 (fmupd 9 42 fmempty) (updateCurrentPing 8 (fmupd 10 1 fmempty) gameInitialState)"
proof -
  let ?xs = "[delta_A, delta_B, delta_C]"
  let ?ys = "[delta_B, delta_A, delta_C]"
  let ?\<pi> = "\<lambda>i::nat. if i = 0 then 1 else if i = 1 then 0 else i"
  have bij: "bij_betw ?\<pi> {..<length ?xs} {..<length ?xs}"
    by (auto simp: bij_betw_def inj_on_def lessThan_Suc)
  have ys: "?ys = map (\<lambda>i. ?xs ! ?\<pi> i) [0..<length ?xs]"
    by (simp add: upt_rec)
  have ord: "\<forall>i j. i < j \<and> j < length ?xs \<and> ping_conflict (?ys ! i) (?ys ! j) \<longrightarrow> ?\<pi> i < ?\<pi> j"
    by (auto simp: less_Suc_eq ping_conflict_def delta_A_def delta_B_def delta_C_def)
  have nc: "\<not> ping_conflict (7, fmupd 9 42 fmempty) (8, fmupd 10 1 fmempty)"
    by (simp add: ping_conflict_def)
  from mergePing_order_independent [of ?\<pi> ?xs ?ys gameInitialState 7 "fmupd 9 42 fmempty" 8 "fmupd 10 1 fmempty"]
    bij ys ord nc
  show ?thesis by blast
qed

text \<open>Two deltas that write the same pair do not commute: the last write wins.\<close>

lemma last_write_wins:
  "applyPingDeltas [delta_C, delta_A] gameInitialState
     \<noteq> applyPingDeltas [delta_A, delta_C] gameInitialState"
proof
  assume "applyPingDeltas [delta_C, delta_A] gameInitialState
            = applyPingDeltas [delta_A, delta_C] gameInitialState"
  then have "fmlookup (player_pings (applyPingDeltas [delta_C, delta_A] gameInitialState) 7) 9
               = fmlookup (player_pings (applyPingDeltas [delta_A, delta_C] gameInitialState) 7) 9"
    by simp
  then show False
    by (simp add: delta_A_def delta_C_def updateCurrentPing_merge gameInitialState_def
          player_pings_def ping_players_def)
qed

section \<open>Properties of the \<open>Node\<close> message\<close>

text \<open>The reader's cut to 32 bits undoes the writer's sign extension.\<close>

lemma readInt32_writeInt32:
  "readInt32 (field, Varint (scast (v :: int32))) = Inr v"
proof -
  have down: "is_down (ucast :: 64 word \<Rightarrow> 32 word)"
    by (simp add: is_down)
  have up: "is_up (scast :: 32 word \<Rightarrow> 64 word)"
    by (simp add: is_up)
  have "(ucast (scast v :: 64 word) :: 32 word) = scast (scast v :: 64 word)"
    using down_cast_same [OF down] by (rule fun_cong)
  also have "\<dots> = v"
    using up by (rule scast_up_scast_id)
  finally show ?thesis
    by (simp add: readInt32_def)
qed

lemma serializeBinary_fields:
  "serializeBinary msg =
     (if getId msg \<noteq> 0 then [(1, Varint (scast (getId msg)))] else []) @
     (if getName msg \<noteq> [] then [(2, Delimited (getName msg))] else []) @
     (if getLocation msg \<noteq> [] then [(3, Delimited (getLocation msg))] else []) @
     (if getIpAddr msg \<noteq> [] then [(4, Delimited (getIpAddr msg))] else []) @
     (if getCountryId msg \<noteq> [] then [(5, Delimited (getCountryId msg))] else [])"
  by (simp add: serializeBinary_def serializeBinaryToWriter_def Let_def writeInt32_def
        writeString_def)

lemma written_append: "written n (xs @ ys) \<longleftrightarrow> written n xs \<or> written n ys"
  by (auto simp: written_def)

lemma written_optional:
  "written n (if c then [(k, v)] else []) \<longleftrightarrow> c \<and> n = k"
  by (cases c) (auto simp: written_def getFieldNumber_def)

text \<open>
  Claim C9: serialization writes field 1 exactly when the id is not 0, and each of the
  fields 2 to 5 exactly when its string (name, location, ip_addr, country_id) is not
  empty.
\<close>

theorem default_fields_omitted:
  "(written 1 (serializeBinary msg) \<longleftrightarrow> getId msg \<noteq> 0)
   \<and> (written 2 (serializeBinary msg) \<longleftrightarrow> getName msg \<noteq> [])
   \<and> (written 3 (serializeBinary msg) \<longleftrightarrow> getLocation msg \<noteq> [])
   \<and> (written 4 (serializeBinary msg) \<longleftrightarrow> getIpAddr msg \<noteq> [])
   \<and> (written 5 (serializeBinary msg) \<longleftrightarrow> getCountryId msg \<noteq> [])"
  unfolding serializeBinary_fields written_append written_optional by simp

text \<open>
  Reading an optional field into a message that holds no value for it gives what the
  setter gives: the written value is stored, and for an omitted field the message
  keeps \<open>null\<close>, which is what the setter stores for the default.
\<close>

lemma deserialize_id:
  assumes "id_field m = None"
  shows "deserializeBinaryFromReader m
           ((if v \<noteq> 0 then [(1, Varint (scast (v :: int32)))] else []) @ reader) =
         deserializeBinaryFromReader (setId v m) reader"
  using assms
  by (cases m) (simp add: isEndGroup_def getFieldNumber_def readInt32_writeInt32 setId_def
        setFieldIgnoringDefault_def)

lemma deserialize_name:
  assumes "name_field m = None"
  shows "deserializeBinaryFromReader m ((if v \<noteq> [] then [(2, Delimited v)] else []) @ reader) =
         deserializeBinaryFromReader (setName v m) reader"
  using assms
  by (cases m) (simp add: isEndGroup_def getFieldNumber_def readString_def setName_def
        setFieldIgnoringDefault_def)

lemma deserialize_location:
  assumes "location_field m = None"
  shows "deserializeBinaryFromReader m ((if v \<noteq> [] then [(3, Delimited v)] else []) @ reader) =
         deserializeBinaryFromReader (setLocation v m) reader"
  using assms
  by (cases m) (simp add: isEndGroup_def getFieldNumber_def readString_def setLocation_def
        setFieldIgnoringDefault_def)

lemma deserialize_ip_addr:
  assumes "ip_addr_field m = None"
  shows "deserializeBinaryFromReader m ((if v \<noteq> [] then [(4, Delimited v)] else []) @ reader) =
         deserializeBinaryFromReader (setIpAddr v m) reader"
  using assms
  by (cases m) (simp add: isEndGroup_def getFieldNumber_def readString_def setIpAddr_def
        setFieldIgnoringDefault_def)

lemma deserialize_country_id:
  assumes "country_id_field m = None"
  shows "deserializeBinaryFromReader m ((if v \<noteq> [] then [(5, Delimited v)] else []) @ reader) =
         deserializeBinaryFromReader (setCountryId v m) reader"
  using assms
  by (cases m) (simp add: isEndGroup_def getFieldNumber_def readString_def setCountryId_def
        setFieldIgnoringDefault_def)

lemmas accessor_defs =
  getId_def getName_def getLocation_def getIpAddr_def getCountryId_def
  setId_def setName_def setLocation_def setIpAddr_def setCountryId_def
  getFieldWithDefault_def setFieldIgnoringDefault_def

text \<open>
  Claim C10: deserializing what serialization wrote succeeds and gives a message whose
  id, name, location, ip_addr and country_id are those of the serialized message, also
  where a field holds its default and is omitted from the wire.
\<close>

theorem serialize_round_trip:
  "\<exists>m. deserializeBinary (serializeBinary msg) = Inr m
       \<and> getId m = getId msg
       \<and> getName m = getName msg
       \<and> getLocation m = getLocation msg
       \<and> getIpAddr m = getIpAddr msg
       \<and> getCountryId m = getCountryId msg"
proof -
  define m1 where "m1 = setId (getId msg) new_Node"
  define m2 where "m2 = setName (getName msg) m1"
  define m3 where "m3 = setLocation (getLocation msg) m2"
  define m4 where "m4 = setIpAddr (getIpAddr msg) m3"
  define m5 where "m5 = setCountryId (getCountryId msg) m4"
  have "deserializeBinary (serializeBinary msg) =
        deserializeBinaryFromReader m1
          ((if getName msg \<noteq> [] then [(2, Delimited (getName msg))] else []) @
           (if getLocation msg \<noteq> [] then [(3, Delimited (getLocation msg))] else []) @
           (if getIpAddr msg \<noteq> [] then [(4, Delimited (getIpAddr msg))] else []) @
           (if getCountryId msg \<noteq> [] then [(5, Delimited (getCountryId msg))] else []))"
    unfolding deserializeBinary_def serializeBinary_fields m1_def
    by (rule deserialize_id) (simp add: new_Node_def)
  also have "\<dots> =
        deserializeBinaryFromReader m2
          ((if getLocation msg \<noteq> [] then [(3, Delimited (getLocation msg))] else []) @
           (if getIpAddr msg \<noteq> [] then [(4, Delimited (getIpAddr msg))] else []) @
           (if getCountryId msg \<noteq> [] then [(5, Delimited (getCountryId msg))] else []))"
    unfolding m2_def by (rule deserialize_name) (simp add: m1_def new_Node_def setId_def)
  also have "\<dots> =
        deserializeBinaryFromReader m3
          ((if getIpAddr msg \<noteq> [] then [(4, Delimited (getIpAddr msg))] else []) @
           (if getCountryId msg \<noteq> [] then [(5, Delimited (getCountryId msg))] else []))"
    unfolding m3_def
    by (rule deserialize_location) (simp add: m2_def m1_def new_Node_def setId_def setName_def)
  also have "\<dots> =
        deserializeBinaryFromReader m4
          ((if getCountryId msg \<noteq> [] then [(5, Delimited (getCountryId msg))] else []) @ [])"
    unfolding m4_def append_Nil2
    by (rule deserialize_ip_addr)
      (simp add: m3_def m2_def m1_def new_Node_def setId_def setName_def setLocation_def)
  also have "\<dots> = deserializeBinaryFromReader m5 []"
    unfolding m5_def
    by (rule deserialize_country_id)
      (simp add: m4_def m3_def m2_def m1_def new_Node_def setId_def setName_def
         setLocation_def setIpAddr_def)
  finally have "deserializeBinary (serializeBinary msg) = Inr m5"
    by simp
  moreover have "getId m5 = getId msg" "getName m5 = getName msg"
    "getLocation m5 = getLocation msg" "getIpAddr m5 = getIpAddr msg"
    "getCountryId m5 = getCountryId msg"
    by (simp_all add: m5_def m4_def m3_def m2_def m1_def accessor_defs new_Node_def)
  ultimately show ?thesis by blast
qed

end
